theory Spec2Isabelle
  imports Complex_Main
begin

section \<open>Numbers and one-dimensional arrays\<close>

text \<open>
  The notebook \<^verbatim>\<open>demo.ipynb\<close> computes with numpy and jax arrays of floating-point
  numbers. This development reads every number as the real number it denotes, and the
  arithmetic of the model functions as arithmetic on the reals, which is the reading
  under which the notebook's two implementations are compared: there the rounding of
  each operation, the difference between 32-bit and 64-bit floats, and overflow are not
  modelled. The sample array is the exception: its elements are the 32-bit floats that
  \<^verbatim>\<open>jnp.linspace\<close> delivers, and what is proved of it holds for whatever floats those are.

  A division by zero does not raise in numpy or jax: it yields an IEEE infinity or NaN.
  Such values are not real numbers, and the model does not track them: a number is
  \<open>Some r\<close> for the real \<open>r\<close>, and \<open>None\<close> once its computation has passed through a
  division by zero. \<open>None\<close> is absorbing, so a result \<open>Some r\<close> has been computed
  with nonzero divisors only.
\<close>

type_synonym num = "real option"

text \<open>A one-dimensional \<^verbatim>\<open>ndarray\<close> / \<^verbatim>\<open>DeviceArray\<close>.\<close>

type_synonym ndarray = "num list"

text \<open>
  The failures the notebook's functions can meet: unpacking a sequence whose length is
  not the number of targets, combining two arrays whose shapes do not broadcast, and
  a failure raised inside the sampling library.
\<close>

datatype py_error = UnpackError | BroadcastError | LibraryError

definition num_lift2 :: "(real \<Rightarrow> real \<Rightarrow> real) \<Rightarrow> num \<Rightarrow> num \<Rightarrow> num" where
  "num_lift2 f u v =
     (case u of None \<Rightarrow> None
      | Some a \<Rightarrow> (case v of None \<Rightarrow> None | Some b \<Rightarrow> Some (f a b)))"

definition num_add :: "num \<Rightarrow> num \<Rightarrow> num" where
  "num_add = num_lift2 (+)"

definition num_sub :: "num \<Rightarrow> num \<Rightarrow> num" where
  "num_sub = num_lift2 (-)"

definition num_mul :: "num \<Rightarrow> num \<Rightarrow> num" where
  "num_mul = num_lift2 (*)"

text \<open>\<^verbatim>\<open>u / v\<close>: outside the reals when the divisor is zero.\<close>

definition num_div :: "num \<Rightarrow> num \<Rightarrow> num" where
  "num_div u v =
     (case u of None \<Rightarrow> None
      | Some a \<Rightarrow> (case v of None \<Rightarrow> None
                  | Some b \<Rightarrow> if b = 0 then None else Some (a / b)))"

text \<open>\<^verbatim>\<open>v**2\<close>.\<close>

definition num_sq :: "num \<Rightarrow> num" where
  "num_sq v = map_option (\<lambda>a. a ^ 2) v"

text \<open>
  An arithmetic operator between an array and a scalar applies elementwise and cannot
  fail. Between two one-dimensional arrays it follows the broadcasting rule: equal
  lengths combine elementwise, an array of length one is stretched to the other's
  length, anything else raises.
\<close>

definition arr_scalar :: "(num \<Rightarrow> num \<Rightarrow> num) \<Rightarrow> ndarray \<Rightarrow> num \<Rightarrow> ndarray" where
  "arr_scalar f a s = map (\<lambda>v. f v s) a"

definition scalar_arr :: "(num \<Rightarrow> num \<Rightarrow> num) \<Rightarrow> num \<Rightarrow> ndarray \<Rightarrow> ndarray" where
  "scalar_arr f s a = map (\<lambda>v. f s v) a"

definition broadcast :: "ndarray \<Rightarrow> ndarray \<Rightarrow> py_error + (num \<times> num) list" where
  "broadcast a b =
     (if length a = length b then Inr (zip a b)
      else if length a = 1 then Inr (zip (replicate (length b) (hd a)) b)
      else if length b = 1 then Inr (zip a (replicate (length a) (hd b)))
      else Inl BroadcastError)"

definition arr_arr :: "(num \<Rightarrow> num \<Rightarrow> num) \<Rightarrow> ndarray \<Rightarrow> ndarray \<Rightarrow> py_error + ndarray" where
  "arr_arr f a b =
     (case broadcast a b of
        Inl e \<Rightarrow> Inl e
      | Inr ps \<Rightarrow> Inr (map (\<lambda>(u, v). f u v) ps))"



text \<open>\<^verbatim>\<open>a**2\<close> on an array.\<close>

definition arr_sq :: "ndarray \<Rightarrow> ndarray" where
  "arr_sq a = map num_sq a"

text \<open>
  An argument that is one number or a one-dimensional array, as the measurement error
  \<open>yerr\<close> is: one error for all points (\<^verbatim>\<open>yerr = 0.4\<close> in the notebook) or one per
  point. Squaring keeps its shape; an array combines with it as with a scalar or as
  with an array.
\<close>

datatype operand = Scalar num | Array ndarray

definition operand_sq :: "operand \<Rightarrow> operand" where
  "operand_sq v = (case v of Scalar s \<Rightarrow> Scalar (num_sq s) | Array a \<Rightarrow> Array (arr_sq a))"

definition arr_operand :: "(num \<Rightarrow> num \<Rightarrow> num) \<Rightarrow> ndarray \<Rightarrow> operand \<Rightarrow> py_error + ndarray" where
  "arr_operand f a v =
     (case v of Scalar s \<Rightarrow> Inr (arr_scalar f a s) | Array b \<Rightarrow> arr_arr f a b)"

text \<open>\<^verbatim>\<open>np.exp\<close> and \<^verbatim>\<open>jnp.exp\<close>: the exponential of every element.\<close>

definition np_exp :: "ndarray \<Rightarrow> ndarray" where
  "np_exp a = map (map_option exp) a"

definition jnp_exp :: "ndarray \<Rightarrow> ndarray" where
  "jnp_exp a = map (map_option exp) a"

text \<open>\<^verbatim>\<open>np.sum\<close> and \<^verbatim>\<open>jnp.sum\<close>: the sum of all elements, zero for the empty array.\<close>

definition np_sum :: "ndarray \<Rightarrow> num" where
  "np_sum a = foldr num_add a (Some 0)"

definition jnp_sum :: "ndarray \<Rightarrow> num" where
  "jnp_sum a = foldr num_add a (Some 0)"

section \<open>The mixture model and its objective\<close>

text \<open>
  \<^verbatim>\<open>a0, x0, s0, a1, x1, s1 = p\<close>: succeeds exactly when \<open>p\<close> has six components.
\<close>

fun unpack6 :: "num list \<Rightarrow> py_error + (num \<times> num \<times> num \<times> num \<times> num \<times> num)" where
  "unpack6 [a0, x0, s0, a1, x1, s1] = Inr (a0, x0, s0, a1, x1, s1)"
| "unpack6 _ = Inl UnpackError"

text \<open>
  \<^verbatim>\<open>
  def model_numpy(p, x):
      a0, x0, s0, a1, x1, s1 = p
      return (
          a0 * np.exp(-0.5 * (x - x0)**2 / s0**2) +
          a1 * np.exp(-0.5 * (x - x1)**2 / s1**2)
      )
  \<close>
  Python reads \<^verbatim>\<open>-0.5 * (x - x0)**2 / s0**2\<close> as
  \<^verbatim>\<open>((-0.5) * ((x - x0)**2)) / (s0**2)\<close>.
\<close>

definition model_numpy :: "num list \<Rightarrow> ndarray \<Rightarrow> py_error + ndarray" where
  "model_numpy p x =
     (case unpack6 p of
        Inl e \<Rightarrow> Inl e
      | Inr (a0, x0, s0, a1, x1, s1) \<Rightarrow>
          arr_arr num_add
            (scalar_arr num_mul a0
               (np_exp (arr_scalar num_div
                  (scalar_arr num_mul (Some (- 0.5)) (arr_sq (arr_scalar num_sub x x0)))
                  (num_sq s0))))
            (scalar_arr num_mul a1
               (np_exp (arr_scalar num_div
                  (scalar_arr num_mul (Some (- 0.5)) (arr_sq (arr_scalar num_sub x x1)))
                  (num_sq s1)))))"

text \<open>
  \<^verbatim>\<open>
  def chi2_numpy(p, x, y, yerr):
      return np.sum((model_numpy(p, x) - y)**2 / yerr**2)
  \<close>
  Python evaluates the model call, the subtraction, the two squares and the division
  in this order; the first failure is the one raised.
\<close>

definition chi2_numpy :: "num list \<Rightarrow> ndarray \<Rightarrow> ndarray \<Rightarrow> operand \<Rightarrow> py_error + num" where
  "chi2_numpy p x y yerr =
     (case model_numpy p x of
        Inl e \<Rightarrow> Inl e
      | Inr m \<Rightarrow>
          (case arr_arr num_sub m y of
             Inl e \<Rightarrow> Inl e
           | Inr r \<Rightarrow>
               (case arr_operand num_div (arr_sq r) (operand_sq yerr) of
                  Inl e \<Rightarrow> Inl e
                | Inr w \<Rightarrow> Inr (np_sum w))))"

text \<open>
  \<^verbatim>\<open>
  @jit
  def model_jax(p, x):
      # the use of `jnp` is the only difference from the numpy version:
      a0, x0, s0, a1, x1, s1 = p
      return (
          a0 * jnp.exp(-0.5 * (x - x0)**2 / s0**2) +
          a1 * jnp.exp(-0.5 * (x - x1)**2 / s1**2)
      )
  @jit
  def chi2_jax(p, x, y, yerr):
      return jnp.sum((model_jax(p, x) - y)**2 / yerr**2)
  \<close>
  \<^verbatim>\<open>jit\<close> compiles the function and leaves what it computes unchanged.
\<close>

definition model_jax :: "num list \<Rightarrow> ndarray \<Rightarrow> py_error + ndarray" where
  "model_jax p x =
     (case unpack6 p of
        Inl e \<Rightarrow> Inl e
      | Inr (a0, x0, s0, a1, x1, s1) \<Rightarrow>
          arr_arr num_add
            (scalar_arr num_mul a0
               (jnp_exp (arr_scalar num_div
                  (scalar_arr num_mul (Some (- 0.5)) (arr_sq (arr_scalar num_sub x x0)))
                  (num_sq s0))))
            (scalar_arr num_mul a1
               (jnp_exp (arr_scalar num_div
                  (scalar_arr num_mul (Some (- 0.5)) (arr_sq (arr_scalar num_sub x x1)))
                  (num_sq s1)))))"

definition chi2_jax :: "num list \<Rightarrow> ndarray \<Rightarrow> ndarray \<Rightarrow> operand \<Rightarrow> py_error + num" where
  "chi2_jax p x y yerr =
     (case model_jax p x of
        Inl e \<Rightarrow> Inl e
      | Inr m \<Rightarrow>
          (case arr_arr num_sub m y of
             Inl e \<Rightarrow> Inl e
           | Inr r \<Rightarrow>
               (case arr_operand num_div (arr_sq r) (operand_sq yerr) of
                  Inl e \<Rightarrow> Inl e
                | Inr w \<Rightarrow> Inr (jnp_sum w))))"

text \<open>
  The mathematical function both implementations are meant to denote, written pointwise
  on the reals: the sum of two Gaussian profiles.
\<close>

definition mixture :: "real \<Rightarrow> real \<Rightarrow> real \<Rightarrow> real \<Rightarrow> real \<Rightarrow> real \<Rightarrow> real \<Rightarrow> real" where
  "mixture a0 x0 s0 a1 x1 s1 t =
     a0 * exp (- 0.5 * (t - x0)\<^sup>2 / s0\<^sup>2) + a1 * exp (- 0.5 * (t - x1)\<^sup>2 / s1\<^sup>2)"

text \<open>A parameter vector of six real scalars, and an array of real numbers.\<close>

definition params :: "real \<Rightarrow> real \<Rightarrow> real \<Rightarrow> real \<Rightarrow> real \<Rightarrow> real \<Rightarrow> num list" where
  "params a0 x0 s0 a1 x1 s1 = [Some a0, Some x0, Some s0, Some a1, Some x1, Some s1]"

definition real_array :: "real list \<Rightarrow> ndarray" where
  "real_array xs = map Some xs"

text \<open>
  The sum of squared residuals between model values \<open>m\<close> and observations \<open>ys\<close>,
  \<open>\<Sum>\<^sub>i (m\<^sub>i - y\<^sub>i)\<^sup>2\<close>, as the specification words the objective.
\<close>

definition sum_squared_residuals :: "real list \<Rightarrow> real list \<Rightarrow> real" where
  "sum_squared_residuals m ys = (\<Sum>(u, v)\<leftarrow>zip m ys. (u - v)\<^sup>2)"

section \<open>The sample array and the synthetic data\<close>

text \<open>
  The linearly spaced real numbers that \<^verbatim>\<open>linspace(start, stop, num)\<close> stands for:
  \<open>num\<close> samples \<open>start + i * step\<close> with \<open>step = (stop - start) / (num - 1)\<close>, the
  last one \<open>stop\<close> itself when there are at least two.
\<close>

definition linspace_exact :: "real \<Rightarrow> real \<Rightarrow> nat \<Rightarrow> real list" where
  "linspace_exact start stop num =
     (let step = (stop - start) / real (num - 1);
          ys = map (\<lambda>i. start + real i * step) [0..<num]
      in if 1 < num then ys[num - 1 := stop] else ys)"


text \<open>
  \<^verbatim>\<open>jnp.linspace\<close> computes the samples in 32-bit floating point. Which float it
  delivers for a sample depends on the order and the fusing of the operations, which
  vary with the version of jax and the backend, so the delivery \<open>fl\<close> is a parameter:
  \<open>fl r\<close> is the float delivered for the exact sample \<open>r\<close>.
\<close>

definition jnp_linspace :: "(real \<Rightarrow> real) \<Rightarrow> real \<Rightarrow> real \<Rightarrow> nat \<Rightarrow> real list" where
  "jnp_linspace fl start stop num = map fl (linspace_exact start stop num)"


text \<open>\<^verbatim>\<open>dev_arr = jnp.linspace(-5, 5, 1_000)\<close>\<close>

definition dev_arr :: "(real \<Rightarrow> real) \<Rightarrow> ndarray" where
  "dev_arr fl = real_array (jnp_linspace fl (- 5) 5 1000)"

text \<open>
  The data cell. Its globals \<^verbatim>\<open>x0, x1, s0, s1, yerr, x, y\<close> share their names with
  the parameters of the functions above, so they carry a suffix here (\<open>_true\<close> for the
  values, \<open>_data\<close> for the arrays).
  \<^verbatim>\<open>
  np.random.seed(42)
  x = np.array(dev_arr.copy())
  amp0 = 5
  amp1 = 10
  x0 = 0.5
  x1 = -0.2
  s0 = 1
  s1 = 0.3
  yerr = 0.4
  y = (
      amp0 * np.exp(-0.5 * (x - x0)**2 / s0**2) +
      amp1 * np.exp(-0.5 * (x - x1)**2 / s1**2) +
      np.random.normal(scale=yerr, size=(len(x)))
  )
  \<close>
\<close>

definition x_data :: "(real \<Rightarrow> real) \<Rightarrow> ndarray" where
  "x_data fl = dev_arr fl"

definition amp0 :: real where "amp0 = 5"
definition amp1 :: real where "amp1 = 10"
definition x0_true :: real where "x0_true = 0.5"
definition x1_true :: real where "x1_true = - 0.2"
definition s0_true :: real where "s0_true = 1"
definition s1_true :: real where "s1_true = 0.3"
definition yerr_true :: real where "yerr_true = 0.4"

text \<open>
  \<^verbatim>\<open>np.random.normal(scale=scale, size=n)\<close>: \<open>n\<close> draws \<open>0 + scale * z\<close>, where
  \<open>z\<close> runs through the standard normal variates the seeded generator produces. The
  generator is not part of the notebook; its stream \<open>g\<close> is a parameter.
\<close>

definition np_random_normal :: "(nat \<Rightarrow> real) \<Rightarrow> real \<Rightarrow> nat \<Rightarrow> ndarray" where
  "np_random_normal g scale n = map (\<lambda>i. Some (0 + scale * g i)) [0..<n]"

definition y_data :: "(real \<Rightarrow> real) \<Rightarrow> (nat \<Rightarrow> real) \<Rightarrow> py_error + ndarray" where
  "y_data fl g =
     (case arr_arr num_add
             (scalar_arr num_mul (Some amp0)
                (np_exp (arr_scalar num_div
                   (scalar_arr num_mul (Some (- 0.5))
                      (arr_sq (arr_scalar num_sub (x_data fl) (Some x0_true))))
                   (num_sq (Some s0_true)))))
             (scalar_arr num_mul (Some amp1)
                (np_exp (arr_scalar num_div
                   (scalar_arr num_mul (Some (- 0.5))
                      (arr_sq (arr_scalar num_sub (x_data fl) (Some x1_true))))
                   (num_sq (Some s1_true))))) of
        Inl e \<Rightarrow> Inl e
      | Inr gs \<Rightarrow> arr_arr num_add gs (np_random_normal g yerr_true (length (x_data fl))))"

section \<open>The sampler's configuration\<close>

text \<open>
  \<^verbatim>\<open>
  cpu_cores = 4
  numpyro.set_host_device_count(cpu_cores)
  \<close>
\<close>

definition cpu_cores :: nat where
  "cpu_cores = 4"

definition host_device_count :: nat where
  "host_device_count = cpu_cores"

text \<open>
  \<^verbatim>\<open>dist.Uniform(low, high)\<close>, and the sample sites of
  \<^verbatim>\<open>
  def numpyro_model():
      a0 = numpyro.sample('amp0', dist.Uniform(low=0, high=8))
      a1 = numpyro.sample('amp1', dist.Uniform(low=8, high=30))
      x0, x1 = numpyro.sample(
          'center', dist.Uniform(low=-1, high=1),
          sample_shape=(2,)
      )
      s0, s1 = numpyro.sample(
          'sigma', dist.Uniform(low=0, high=3),
          sample_shape=(2,)
      )
      numpyro.sample(
          "obs", dist.Normal(
              loc=model_jax([a0, x0, s0, a1, x1, s1], x),
              scale=yerr
          ), obs=y
      )
  \<close>
  Each latent site has a name, a prior and the number of values drawn (one without
  \<^verbatim>\<open>sample_shape\<close>).
\<close>

record uniform_dist =
  low :: real
  high :: real

definition numpyro_model_sites :: "(string \<times> uniform_dist \<times> nat) list" where
  "numpyro_model_sites =
     [(''amp0'', \<lparr>low = 0, high = 8\<rparr>, 1),
      (''amp1'', \<lparr>low = 8, high = 30\<rparr>, 1),
      (''center'', \<lparr>low = - 1, high = 1\<rparr>, 2),
      (''sigma'', \<lparr>low = 0, high = 3\<rparr>, 2)]"

definition site_dist :: "string \<Rightarrow> uniform_dist option" where
  "site_dist name = map_option fst (map_of numpyro_model_sites name)"

text \<open>
  What the sampling library does at a \<^verbatim>\<open>numpyro.sample\<close> statement is not the
  notebook's: the distribution is constructed, a handler supplies the value of a
  latent site or scores an observed one, and any of it may fail. The three forms of
  the statement that \<open>numpyro_model\<close> uses are the fields of an environment, each
  standing for the construction of the distribution and the call together:
  \<^verbatim>\<open>numpyro.sample(name, dist.Uniform(low, high))\<close>, drawn once; the same with
  \<^verbatim>\<open>sample_shape=(n,)\<close>, drawn as an array; and
  \<^verbatim>\<open>numpyro.sample(name, dist.Normal(loc, scale), obs=obs)\<close>.
\<close>

record numpyro_env =
  sample :: "string \<Rightarrow> uniform_dist \<Rightarrow> py_error + num"
  sample_shape :: "string \<Rightarrow> uniform_dist \<Rightarrow> nat \<Rightarrow> py_error + ndarray"
  sample_obs :: "string \<Rightarrow> ndarray \<Rightarrow> num \<Rightarrow> ndarray \<Rightarrow> py_error + unit"

text \<open>\<^verbatim>\<open>x0, x1 = ...\<close>: succeeds exactly on an array of two elements.\<close>

fun unpack2 :: "ndarray \<Rightarrow> py_error + (num \<times> num)" where
  "unpack2 [u, v] = Inr (u, v)"
| "unpack2 _ = Inl UnpackError"

text \<open>
  The body of \<open>numpyro_model\<close>, statement by statement; the first failure ends it. The
  globals \<open>x\<close> and \<open>y\<close> it reads are arguments here, \<open>yerr\<close> is the global \<open>0.4\<close>.
\<close>

definition numpyro_model :: "numpyro_env \<Rightarrow> ndarray \<Rightarrow> ndarray \<Rightarrow> py_error + unit" where
  "numpyro_model env x y =
     (case sample env ''amp0'' \<lparr>low = 0, high = 8\<rparr> of
        Inl e \<Rightarrow> Inl e
      | Inr a0 \<Rightarrow>
     (case sample env ''amp1'' \<lparr>low = 8, high = 30\<rparr> of
        Inl e \<Rightarrow> Inl e
      | Inr a1 \<Rightarrow>
     (case sample_shape env ''center'' \<lparr>low = - 1, high = 1\<rparr> 2 of
        Inl e \<Rightarrow> Inl e
      | Inr c \<Rightarrow>
     (case unpack2 c of
        Inl e \<Rightarrow> Inl e
      | Inr (x0, x1) \<Rightarrow>
     (case sample_shape env ''sigma'' \<lparr>low = 0, high = 3\<rparr> 2 of
        Inl e \<Rightarrow> Inl e
      | Inr s \<Rightarrow>
     (case unpack2 s of
        Inl e \<Rightarrow> Inl e
      | Inr (s0, s1) \<Rightarrow>
     (case model_jax [a0, x0, s0, a1, x1, s1] x of
        Inl e \<Rightarrow> Inl e
      | Inr loc \<Rightarrow> sample_obs env ''obs'' loc (Some yerr_true) y)))))))"

text \<open>
  A handler that supplies the draws \<open>draw name\<close> and fails at a latent site that is
  not in the table \<open>numpyro_model_sites\<close> under that name, prior and number of values,
  or whose draw has another number of values or lies outside the interior of the
  prior's support. Under it \<open>numpyro_model\<close> runs through exactly when every site it
  declares is in the table and every draw is possible under the priors.
\<close>

definition strictly_inside :: "uniform_dist \<Rightarrow> real \<Rightarrow> bool" where
  "strictly_inside d v \<longleftrightarrow> low d < v \<and> v < high d"

definition possible_draw :: "uniform_dist \<Rightarrow> num \<Rightarrow> bool" where
  "possible_draw d v = (case v of None \<Rightarrow> False | Some r \<Rightarrow> strictly_inside d r)"

definition checking_env :: "(string \<times> uniform_dist \<times> nat) list \<Rightarrow> (string \<Rightarrow> ndarray) \<Rightarrow> numpyro_env" where
  "checking_env sites draw =
     \<lparr>sample = (\<lambda>name d.
         if map_of sites name = Some (d, 1) \<and> length (draw name) = 1
            \<and> list_all (possible_draw d) (draw name)
         then Inr (hd (draw name)) else Inl LibraryError),
      sample_shape = (\<lambda>name d n.
         if map_of sites name = Some (d, n) \<and> length (draw name) = n
            \<and> list_all (possible_draw d) (draw name)
         then Inr (draw name) else Inl LibraryError),
      sample_obs = (\<lambda>name loc scale obs. Inr ())\<rparr>"

text \<open>The density of the uniform distribution.\<close>

definition uniform_pdf :: "uniform_dist \<Rightarrow> real \<Rightarrow> real" where
  "uniform_pdf d v = (if low d \<le> v \<and> v \<le> high d then 1 / (high d - low d) else 0)"

definition site_pdf :: "string \<Rightarrow> real \<Rightarrow> real" where
  "site_pdf name v = (case site_dist name of None \<Rightarrow> 0 | Some d \<Rightarrow> uniform_pdf d v)"

text \<open>
  The joint prior density of \<open>numpyro_model\<close> at amplitudes \<open>a0, a1\<close>, centres
  \<open>x0, x1\<close> and widths \<open>s0, s1\<close>: the sites are drawn independently.
\<close>

definition prior_density :: "real \<Rightarrow> real \<Rightarrow> real \<Rightarrow> real \<Rightarrow> real \<Rightarrow> real \<Rightarrow> real" where
  "prior_density a0 x0 s0 a1 x1 s1 =
     site_pdf ''amp0'' a0 * site_pdf ''amp1'' a1 *
     (site_pdf ''center'' x0 * site_pdf ''center'' x1) *
     (site_pdf ''sigma'' s0 * site_pdf ''sigma'' s1)"

text \<open>
  \<^verbatim>\<open>
  rng_seed = 42
  rng_keys = split(PRNGKey(rng_seed), cpu_cores)
  sampler = NUTS(numpyro_model, dense_mass=True)
  mcmc = MCMC(sampler, num_warmup=1_000, num_samples=5_000, num_chains=4)
  mcmc.run(rng_keys)
  \<close>
  A key is the seed it was made from or the \<open>i\<close>-th key split off another one;
  \<^verbatim>\<open>split(key, n)\<close> returns \<open>n\<close> keys.
\<close>

datatype prng_key = PRNGKey int | Subkey prng_key nat

definition split :: "prng_key \<Rightarrow> nat \<Rightarrow> prng_key list" where
  "split key n = map (Subkey key) [0..<n]"

definition rng_seed :: int where
  "rng_seed = 42"

definition rng_keys :: "prng_key list" where
  "rng_keys = split (PRNGKey rng_seed) cpu_cores"

record mcmc_config =
  num_warmup :: nat
  num_samples :: nat
  num_chains :: nat

definition mcmc :: mcmc_config where
  "mcmc = \<lparr>num_warmup = 1000, num_samples = 5000, num_chains = 4\<rparr>"

section \<open>The revised copy of the notebook\<close>

text \<open>
  The repository holds a second, later copy of the notebook. It normalises the two
  Gaussian profiles and changes the true values and the priors; everything above
  follows \<^verbatim>\<open>demo.ipynb\<close>. Its model, of which \<open>model_jax\<close> differs in \<^verbatim>\<open>jnp.exp\<close>
  only, and its \<open>numpyro_model\<close>:
  \<^verbatim>\<open>
  def model_numpy(p, x):
      a0, x0, s0, a1, x1, s1 = p
      return (
          a0 / s0 / (2 * np.pi)**0.5 *
          np.exp(-0.5 * (x - x0)**2 / s0**2) +
          a1 / s1 / (2 * np.pi)**0.5 *
          np.exp(-0.5 * (x - x1)**2 / s1**2)
      )

  def numpyro_model():
      """
      Define a model to sample with the No U-Turn Sampler (NUTS) via numpyro.

      The two Gaussians are defined by an amplitude, mean, and standard deviation.

      To find unique solutions for the two Gaussians, we put non-overlapping bounded
      priors on the two amplitudes, but vary the means and stddev's with identical
      uniform priors.
      """
      # Uniform priors for amplitudes
      a0, a1 = numpyro.sample(
          'amp', dist.Uniform(low=1, high=6),
          sample_shape=(2,)
      )

      # Non-overlapping uniform priors for Gaussian means
      x0 = numpyro.sample('x0', dist.Uniform(low=0.1, high=2))
      x1 = numpyro.sample('x1', dist.Uniform(low=-1, high=0.1))

      # Uniform priors for the stddev's
      s0, s1 = numpyro.sample(
          'sigma', dist.Uniform(low=0, high=1),
          sample_shape=(2,)
      )

      # Normally distributed likelihood
      numpyro.sample(
          "obs", dist.Normal(
              loc=model_jax([a0, x0, s0, a1, x1, s1], x),
              scale=yerr
          ), obs=y
      )
  \<close>
\<close>

definition model_numpy_rev :: "num list \<Rightarrow> ndarray \<Rightarrow> py_error + ndarray" where
  "model_numpy_rev p x =
     (case unpack6 p of
        Inl e \<Rightarrow> Inl e
      | Inr (a0, x0, s0, a1, x1, s1) \<Rightarrow>
          arr_arr num_add
            (scalar_arr num_mul
               (num_div (num_div a0 s0) (Some ((2 * pi) powr 0.5)))
               (np_exp (arr_scalar num_div
                  (scalar_arr num_mul (Some (- 0.5)) (arr_sq (arr_scalar num_sub x x0)))
                  (num_sq s0))))
            (scalar_arr num_mul
               (num_div (num_div a1 s1) (Some ((2 * pi) powr 0.5)))
               (np_exp (arr_scalar num_div
                  (scalar_arr num_mul (Some (- 0.5)) (arr_sq (arr_scalar num_sub x x1)))
                  (num_sq s1)))))"

definition numpyro_model_sites_rev :: "(string \<times> uniform_dist \<times> nat) list" where
  "numpyro_model_sites_rev =
     [(''amp'', \<lparr>low = 1, high = 6\<rparr>, 2),
      (''x0'', \<lparr>low = 0.1, high = 2\<rparr>, 1),
      (''x1'', \<lparr>low = - 1, high = 0.1\<rparr>, 1),
      (''sigma'', \<lparr>low = 0, high = 1\<rparr>, 2)]"

definition model_jax_rev :: "num list \<Rightarrow> ndarray \<Rightarrow> py_error + ndarray" where
  "model_jax_rev p x =
     (case unpack6 p of
        Inl e \<Rightarrow> Inl e
      | Inr (a0, x0, s0, a1, x1, s1) \<Rightarrow>
          arr_arr num_add
            (scalar_arr num_mul
               (num_div (num_div a0 s0) (Some ((2 * pi) powr 0.5)))
               (jnp_exp (arr_scalar num_div
                  (scalar_arr num_mul (Some (- 0.5)) (arr_sq (arr_scalar num_sub x x0)))
                  (num_sq s0))))
            (scalar_arr num_mul
               (num_div (num_div a1 s1) (Some ((2 * pi) powr 0.5)))
               (jnp_exp (arr_scalar num_div
                  (scalar_arr num_mul (Some (- 0.5)) (arr_sq (arr_scalar num_sub x x1)))
                  (num_sq s1)))))"

definition numpyro_model_rev :: "numpyro_env \<Rightarrow> ndarray \<Rightarrow> ndarray \<Rightarrow> py_error + unit" where
  "numpyro_model_rev env x y =
     (case sample_shape env ''amp'' \<lparr>low = 1, high = 6\<rparr> 2 of
        Inl e \<Rightarrow> Inl e
      | Inr a \<Rightarrow>
     (case unpack2 a of
        Inl e \<Rightarrow> Inl e
      | Inr (a0, a1) \<Rightarrow>
     (case sample env ''x0'' \<lparr>low = 0.1, high = 2\<rparr> of
        Inl e \<Rightarrow> Inl e
      | Inr x0 \<Rightarrow>
     (case sample env ''x1'' \<lparr>low = - 1, high = 0.1\<rparr> of
        Inl e \<Rightarrow> Inl e
      | Inr x1 \<Rightarrow>
     (case sample_shape env ''sigma'' \<lparr>low = 0, high = 1\<rparr> 2 of
        Inl e \<Rightarrow> Inl e
      | Inr s \<Rightarrow>
     (case unpack2 s of
        Inl e \<Rightarrow> Inl e
      | Inr (s0, s1) \<Rightarrow>
     (case model_jax_rev [a0, x0, s0, a1, x1, s1] x of
        Inl e \<Rightarrow> Inl e
      | Inr loc \<Rightarrow> sample_obs env ''obs'' loc (Some yerr_true) y)))))))"

section \<open>Elementwise reading of the array operations\<close>

text \<open>
  On real parameters with nonzero widths and a real array, the array pipeline of either
  implementation computes the mixture at every sample.
\<close>

lemma model_numpy_real:
  assumes "s0 \<noteq> 0" and "s1 \<noteq> 0"
  shows "model_numpy (params a0 x0 s0 a1 x1 s1) (real_array xs) =
           Inr (real_array (map (mixture a0 x0 s0 a1 x1 s1) xs))"
  using assms
  by (simp add: model_numpy_def params_def real_array_def arr_arr_def broadcast_def
      scalar_arr_def arr_scalar_def np_exp_def arr_sq_def num_sq_def num_div_def
      num_mul_def num_sub_def num_add_def num_lift2_def mixture_def zip_map_map
      zip_same_conv_map comp_def)

lemma model_jax_real:
  assumes "s0 \<noteq> 0" and "s1 \<noteq> 0"
  shows "model_jax (params a0 x0 s0 a1 x1 s1) (real_array xs) =
           Inr (real_array (map (mixture a0 x0 s0 a1 x1 s1) xs))"
  using assms
  by (simp add: model_jax_def params_def real_array_def arr_arr_def broadcast_def
      scalar_arr_def arr_scalar_def jnp_exp_def arr_sq_def num_sq_def num_div_def
      num_mul_def num_sub_def num_add_def num_lift2_def mixture_def zip_map_map
      zip_same_conv_map comp_def)

lemma foldr_num_add_real:
  "foldr num_add (map Some v) (Some 0) = Some (sum_list v)"
  by (induction v) (simp_all add: num_add_def num_lift2_def)

lemma np_sum_real: "np_sum (real_array v) = Some (sum_list v)"
  by (simp add: np_sum_def real_array_def foldr_num_add_real)

lemma jnp_sum_real: "jnp_sum (real_array v) = Some (sum_list v)"
  by (simp add: jnp_sum_def real_array_def foldr_num_add_real)

lemma arr_add_real:
  "length a = length b \<Longrightarrow>
     arr_arr num_add (real_array a) (real_array b) = Inr (real_array (map (\<lambda>(u, v). u + v) (zip a b)))"
  by (auto simp add: arr_arr_def broadcast_def real_array_def num_add_def num_lift2_def zip_map_map)

lemma arr_sub_real:
  "length a = length b \<Longrightarrow>
     arr_arr num_sub (real_array a) (real_array b) = Inr (real_array (map (\<lambda>(u, v). u - v) (zip a b)))"
  by (auto simp add: arr_arr_def broadcast_def real_array_def num_sub_def num_lift2_def zip_map_map)

lemma weighted_squares_real:
  "yerr \<noteq> 0 \<Longrightarrow>
     arr_operand num_div (arr_sq (real_array r)) (operand_sq (Scalar (Some yerr))) =
       Inr (real_array (map (\<lambda>d. d\<^sup>2 / yerr\<^sup>2) r))"
  by (simp add: arr_operand_def operand_sq_def real_array_def arr_scalar_def arr_sq_def
      num_sq_def num_div_def)

lemma chi2_numpy_real:
  assumes "s0 \<noteq> 0" and "s1 \<noteq> 0" and "yerr \<noteq> 0" and "length xs = length ys"
  shows "chi2_numpy (params a0 x0 s0 a1 x1 s1) (real_array xs) (real_array ys) (Scalar (Some yerr)) =
           Inr (Some (\<Sum>(t, v)\<leftarrow>zip xs ys. (mixture a0 x0 s0 a1 x1 s1 t - v)\<^sup>2 / yerr\<^sup>2))"
proof -
  let ?m = "map (mixture a0 x0 s0 a1 x1 s1) xs"
  have len: "length ?m = length ys" using assms(4) by simp
  have "chi2_numpy (params a0 x0 s0 a1 x1 s1) (real_array xs) (real_array ys) (Scalar (Some yerr)) =
          Inr (Some (sum_list (map (\<lambda>d. d\<^sup>2 / yerr\<^sup>2) (map (\<lambda>(u, v). u - v) (zip ?m ys)))))"
    by (simp only: chi2_numpy_def model_numpy_real [OF assms(1,2)] arr_sub_real [OF len]
        weighted_squares_real [OF assms(3)] np_sum_real sum.case)
  also have "map (\<lambda>d. d\<^sup>2 / yerr\<^sup>2) (map (\<lambda>(u, v). u - v) (zip ?m ys)) =
               map (\<lambda>(t, v). (mixture a0 x0 s0 a1 x1 s1 t - v)\<^sup>2 / yerr\<^sup>2) (zip xs ys)"
    by (simp add: zip_map1 comp_def case_prod_unfold)
  finally show ?thesis .
qed

lemma chi2_jax_real:
  assumes "s0 \<noteq> 0" and "s1 \<noteq> 0" and "yerr \<noteq> 0" and "length xs = length ys"
  shows "chi2_jax (params a0 x0 s0 a1 x1 s1) (real_array xs) (real_array ys) (Scalar (Some yerr)) =
           Inr (Some (\<Sum>(t, v)\<leftarrow>zip xs ys. (mixture a0 x0 s0 a1 x1 s1 t - v)\<^sup>2 / yerr\<^sup>2))"
proof -
  let ?m = "map (mixture a0 x0 s0 a1 x1 s1) xs"
  have len: "length ?m = length ys" using assms(4) by simp
  have "chi2_jax (params a0 x0 s0 a1 x1 s1) (real_array xs) (real_array ys) (Scalar (Some yerr)) =
          Inr (Some (sum_list (map (\<lambda>d. d\<^sup>2 / yerr\<^sup>2) (map (\<lambda>(u, v). u - v) (zip ?m ys)))))"
    by (simp only: chi2_jax_def model_jax_real [OF assms(1,2)] arr_sub_real [OF len]
        weighted_squares_real [OF assms(3)] jnp_sum_real sum.case)
  also have "map (\<lambda>d. d\<^sup>2 / yerr\<^sup>2) (map (\<lambda>(u, v). u - v) (zip ?m ys)) =
               map (\<lambda>(t, v). (mixture a0 x0 s0 a1 x1 s1 t - v)\<^sup>2 / yerr\<^sup>2) (zip xs ys)"
    by (simp add: zip_map1 comp_def case_prod_unfold)
  finally show ?thesis .
qed

lemma sum_list_divide:
  "(\<Sum>p\<leftarrow>ps. g p / c) = (\<Sum>p\<leftarrow>ps. g p) / (c::real)"
  by (induction ps) (simp_all add: add_divide_distrib)

lemma weighted_sum_factor:
  "(\<Sum>(t, v)\<leftarrow>zip xs ys. (f t - v)\<^sup>2 / c) = sum_squared_residuals (map f xs) ys / (c::real)"
proof -
  have "(\<Sum>(t, v)\<leftarrow>zip xs ys. (f t - v)\<^sup>2 / c) = (\<Sum>p\<leftarrow>zip xs ys. (f (fst p) - snd p)\<^sup>2 / c)"
    by (simp add: case_prod_unfold)
  also have "\<dots> = (\<Sum>p\<leftarrow>zip xs ys. (f (fst p) - snd p)\<^sup>2) / c"
    by (rule sum_list_divide)
  also have "(\<Sum>p\<leftarrow>zip xs ys. (f (fst p) - snd p)\<^sup>2) = sum_squared_residuals (map f xs) ys"
    by (simp add: sum_squared_residuals_def zip_map1 comp_def case_prod_unfold)
  finally show ?thesis .
qed

lemma np_random_normal_real:
  "np_random_normal g s n = real_array (map (\<lambda>i. s * g i) [0..<n])"
  by (simp add: np_random_normal_def real_array_def)

lemma add_then_sub:
  "length a = length b \<Longrightarrow>
     map (\<lambda>(u, v). u - v) (zip (map (\<lambda>(u, v). u + v) (zip a b)) b) = (a :: real list)"
  by (induction a b rule: list_induct2) simp_all




lemma model_jax_six:
  "\<exists>m. model_jax [a0, x0, s0, a1, x1, s1] x = Inr m \<and> length m = length x"
  by (simp add: model_jax_def arr_arr_def broadcast_def scalar_arr_def arr_scalar_def
      jnp_exp_def arr_sq_def)





lemma mixture_swap: "mixture a0 x0 s0 a1 x1 s1 = mixture a1 x1 s1 a0 x0 s0"
  by (rule ext) (simp add: mixture_def)

lemma site_dist_simps:
  "site_dist ''amp0'' = Some \<lparr>low = 0, high = 8\<rparr>"
  "site_dist ''amp1'' = Some \<lparr>low = 8, high = 30\<rparr>"
  "site_dist ''center'' = Some \<lparr>low = - 1, high = 1\<rparr>"
  "site_dist ''sigma'' = Some \<lparr>low = 0, high = 3\<rparr>"
  by (simp_all add: site_dist_def numpyro_model_sites_def)

section \<open>The two implementations agree\<close>

text \<open>
  C1. For real parameters \<open>(a0, x0, s0, a1, x1, s1)\<close> with \<open>s0 \<noteq> 0\<close> and \<open>s1 \<noteq> 0\<close>
  and every real array \<open>x\<close>, \<open>model_numpy\<close> and \<open>model_jax\<close> both return the array of
  \<open>a0 * exp (-0.5 * (x - x0)\<^sup>2 / s0\<^sup>2) + a1 * exp (-0.5 * (x - x1)\<^sup>2 / s1\<^sup>2)\<close>; and for
  \<open>x\<close>, \<open>y\<close> of equal length and \<open>yerr \<noteq> 0\<close>, \<open>chi2_numpy\<close> and \<open>chi2_jax\<close> return the
  same real number.
\<close>

theorem numpy_jax_agree:
  assumes "s0 \<noteq> 0" and "s1 \<noteq> 0"
  shows "model_numpy (params a0 x0 s0 a1 x1 s1) (real_array xs) =
           Inr (real_array (map (mixture a0 x0 s0 a1 x1 s1) xs))
       \<and> model_jax (params a0 x0 s0 a1 x1 s1) (real_array xs) =
           Inr (real_array (map (mixture a0 x0 s0 a1 x1 s1) xs))
       \<and> (yerr \<noteq> 0 \<and> length xs = length ys \<longrightarrow>
            (\<exists>c. chi2_numpy (params a0 x0 s0 a1 x1 s1) (real_array xs) (real_array ys) (Scalar (Some yerr)) = Inr (Some c)
               \<and> chi2_jax (params a0 x0 s0 a1 x1 s1) (real_array xs) (real_array ys) (Scalar (Some yerr)) = Inr (Some c)))"
  using assms
  by (simp add: model_numpy_real model_jax_real chi2_numpy_real chi2_jax_real)

theorem numpy_jax_agree_witness:
  "(1::real) \<noteq> 0 \<and> (2::real) \<noteq> 0
   \<and> model_numpy (params 3 0 1 4 0 2) (real_array [0]) = Inr (real_array [7])
   \<and> model_jax (params 3 0 1 4 0 2) (real_array [0]) = Inr (real_array [7])
   \<and> (\<exists>c. chi2_numpy (params 3 0 1 4 0 2) (real_array [0]) (real_array [5]) (Scalar (Some 2)) = Inr (Some c)
          \<and> chi2_jax (params 3 0 1 4 0 2) (real_array [0]) (real_array [5]) (Scalar (Some 2)) = Inr (Some c))"
  using numpy_jax_agree [of 1 2 3 0 4 0 "[0]" 2 "[5]"]
  by (simp add: mixture_def)

section \<open>The synthetic data\<close>

text \<open>
  The expression that defines \<open>y\<close> repeats the body of \<open>model_numpy\<close> on the globals.
\<close>

lemma y_expression:
  "(case arr_arr num_add
             (scalar_arr num_mul (Some amp0)
                (np_exp (arr_scalar num_div
                   (scalar_arr num_mul (Some (- 0.5))
                      (arr_sq (arr_scalar num_sub x (Some x0_true))))
                   (num_sq (Some s0_true)))))
             (scalar_arr num_mul (Some amp1)
                (np_exp (arr_scalar num_div
                   (scalar_arr num_mul (Some (- 0.5))
                      (arr_sq (arr_scalar num_sub x (Some x1_true))))
                   (num_sq (Some s1_true))))) of
        Inl e \<Rightarrow> Inl e
      | Inr gs \<Rightarrow> arr_arr num_add gs noise) =
   (case model_numpy (params amp0 x0_true s0_true amp1 x1_true s1_true) x of
        Inl e \<Rightarrow> Inl e
      | Inr gs \<Rightarrow> arr_arr num_add gs noise)"
  by (simp add: model_numpy_def params_def)

text \<open>
  C2. With the true parameters \<open>(amp0, x0, s0, amp1, x1, s1) = (5, 0.5, 1, 10, -0.2, 0.3)\<close>
  and \<open>n\<close> the noise array drawn with scale \<open>yerr = 0.4\<close> and length \<open>len(x)\<close>, the
  generated \<open>y\<close> is \<open>model_numpy(p_true, x) + n\<close> elementwise, and \<open>y - n\<close> is the
  mixture model at the true parameters. It holds for every stream of variates the
  generator may produce and for whatever floats the sample array holds.
\<close>

theorem synthetic_y_is_model_plus_noise:
  "\<exists>m yv. params amp0 x0_true s0_true amp1 x1_true s1_true = params 5 0.5 1 10 (- 0.2) 0.3
      \<and> yerr_true = 0.4
      \<and> model_numpy (params 5 0.5 1 10 (- 0.2) 0.3) (x_data fl) = Inr m
      \<and> m = real_array (map (mixture 5 0.5 1 10 (- 0.2) 0.3) (jnp_linspace fl (- 5) 5 1000))
      \<and> length (np_random_normal g 0.4 (length (x_data fl))) = length (x_data fl)
      \<and> y_data fl g = arr_arr num_add m (np_random_normal g 0.4 (length (x_data fl)))
      \<and> y_data fl g = Inr yv
      \<and> arr_arr num_sub yv (np_random_normal g 0.4 (length (x_data fl))) = Inr m"
proof -
  let ?xs = "jnp_linspace fl (- 5) 5 1000"
  let ?ms = "map (mixture 5 0.5 1 10 (- 0.2) 0.3) ?xs"
  let ?ns = "map (\<lambda>i. 0.4 * g i) [0..<length ?xs]"
  have x: "x_data fl = real_array ?xs"
    by (simp add: x_data_def dev_arr_def)
  have lx: "length (x_data fl) = length ?xs"
    by (simp add: x real_array_def)
  have len: "length ?ms = length ?ns"
    by simp
  have m: "model_numpy (params 5 0.5 1 10 (- 0.2) 0.3) (x_data fl) = Inr (real_array ?ms)"
    unfolding x by (rule model_numpy_real) simp_all
  have n: "np_random_normal g 0.4 (length (x_data fl)) = real_array ?ns"
    by (simp only: np_random_normal_real lx)
  have y: "y_data fl g = arr_arr num_add (real_array ?ms) (real_array ?ns)"
    unfolding y_data_def y_expression
    unfolding amp0_def amp1_def x0_true_def x1_true_def s0_true_def s1_true_def yerr_true_def
    by (simp only: m n sum.case)
  have yv: "y_data fl g = Inr (real_array (map (\<lambda>(u, v). u + v) (zip ?ms ?ns)))"
    unfolding y by (rule arr_add_real [OF len])
  have minus: "arr_arr num_sub (real_array (map (\<lambda>(u, v). u + v) (zip ?ms ?ns))) (real_array ?ns) =
                Inr (real_array ?ms)"
    using len by (simp add: arr_sub_real add_then_sub)
  have l: "length (np_random_normal g 0.4 (length (x_data fl))) = length (x_data fl)"
    by (simp add: np_random_normal_def)
  have y': "y_data fl g = arr_arr num_add (real_array ?ms) (np_random_normal g 0.4 (length (x_data fl)))"
    by (simp only: y n)
  have minus': "arr_arr num_sub (real_array (map (\<lambda>(u, v). u + v) (zip ?ms ?ns)))
                  (np_random_normal g 0.4 (length (x_data fl))) = Inr (real_array ?ms)"
    by (simp only: minus n)
  have c: "params amp0 x0_true s0_true amp1 x1_true s1_true = params 5 0.5 1 10 (- 0.2) 0.3"
    and e: "yerr_true = 0.4"
    by (simp_all add: amp0_def amp1_def x0_true_def x1_true_def s0_true_def s1_true_def
        yerr_true_def)
  show ?thesis
    using c e m l y' yv minus' by blast
qed

section \<open>The objective is the error-weighted sum of squared residuals\<close>

text \<open>
  C3, as the specification states it, makes the objective the plain sum of squared
  residuals. The code divides every squared residual by \<open>yerr\<^sup>2\<close>: with a single sample
  at which the model is \<open>1\<close>, the observation \<open>0\<close> and \<open>yerr = 2\<close>, both implementations
  return \<open>1/4\<close>, and the sum of squared residuals is \<open>1\<close>.
\<close>

theorem chi2_unweighted_counterexample:
  "chi2_numpy (params 1 0 1 0 0 1) (real_array [0]) (real_array [0]) (Scalar (Some 2)) = Inr (Some (1 / 4))
   \<and> chi2_jax (params 1 0 1 0 0 1) (real_array [0]) (real_array [0]) (Scalar (Some 2)) = Inr (Some (1 / 4))
   \<and> sum_squared_residuals (map (mixture 1 0 1 0 0 1) [0]) [0] = 1
   \<and> chi2_numpy (params 1 0 1 0 0 1) (real_array [0]) (real_array [0]) (Scalar (Some 2)) \<noteq>
       Inr (Some (sum_squared_residuals (map (mixture 1 0 1 0 0 1) [0]) [0]))"
  by (simp add: chi2_numpy_def chi2_jax_def model_numpy_def model_jax_def params_def
      real_array_def arr_arr_def broadcast_def scalar_arr_def arr_scalar_def np_exp_def
      jnp_exp_def arr_sq_def num_sq_def num_div_def num_mul_def num_sub_def num_add_def
      num_lift2_def np_sum_def jnp_sum_def sum_squared_residuals_def mixture_def
      arr_operand_def operand_sq_def)

text \<open>
  C3, amended. For real parameters with \<open>s0 \<noteq> 0\<close> and \<open>s1 \<noteq> 0\<close>, real arrays \<open>x\<close> and
  \<open>y\<close> of equal length and \<open>yerr \<noteq> 0\<close>, \<open>chi2_numpy\<close> and \<open>chi2_jax\<close> return the sum
  over \<open>i\<close> of \<open>(model(p, x)\<^sub>i - y\<^sub>i)\<^sup>2 / yerr\<^sup>2\<close>, which is the sum of squared residuals
  divided by \<open>yerr\<^sup>2\<close>.
\<close>

theorem chi2_weighted_sum:
  assumes "s0 \<noteq> 0" and "s1 \<noteq> 0" and "yerr \<noteq> 0" and "length xs = length ys"
  shows "chi2_numpy (params a0 x0 s0 a1 x1 s1) (real_array xs) (real_array ys) (Scalar (Some yerr)) =
           Inr (Some (\<Sum>(t, v)\<leftarrow>zip xs ys. (mixture a0 x0 s0 a1 x1 s1 t - v)\<^sup>2 / yerr\<^sup>2))
       \<and> chi2_jax (params a0 x0 s0 a1 x1 s1) (real_array xs) (real_array ys) (Scalar (Some yerr)) =
           Inr (Some (\<Sum>(t, v)\<leftarrow>zip xs ys. (mixture a0 x0 s0 a1 x1 s1 t - v)\<^sup>2 / yerr\<^sup>2))
       \<and> (\<Sum>(t, v)\<leftarrow>zip xs ys. (mixture a0 x0 s0 a1 x1 s1 t - v)\<^sup>2 / yerr\<^sup>2) =
           sum_squared_residuals (map (mixture a0 x0 s0 a1 x1 s1) xs) ys / yerr\<^sup>2"
  using assms
  by (simp add: chi2_numpy_real chi2_jax_real weighted_sum_factor)

theorem chi2_weighted_sum_witness:
  "(1::real) \<noteq> 0 \<and> (2::real) \<noteq> 0 \<and> length [0::real] = length [5::real]
   \<and> chi2_numpy (params 3 0 1 4 0 1) (real_array [0]) (real_array [5]) (Scalar (Some 2)) = Inr (Some 1)
   \<and> chi2_jax (params 3 0 1 4 0 1) (real_array [0]) (real_array [5]) (Scalar (Some 2)) = Inr (Some 1)
   \<and> sum_squared_residuals (map (mixture 3 0 1 4 0 1) [0]) [5] / 2\<^sup>2 = 1"
  using chi2_weighted_sum [of 1 1 2 "[0]" "[5]" 3 0 4 0]
  by (simp add: mixture_def)

section \<open>Totality\<close>




section \<open>The sample array\<close>























section \<open>Keys, chains and workers\<close>

text \<open>
  C7. The worker-count hint is \<open>cpu_cores = 4\<close>, the seed's key is split into exactly
  \<open>cpu_cores\<close> keys, and the sampler runs \<open>num_chains = 4\<close> chains: the number of keys
  handed to \<open>mcmc.run\<close>, the number of chains and the worker-count hint are equal.
\<close>

theorem keys_chains_workers_agree:
  "cpu_cores = 4 \<and> host_device_count = cpu_cores
   \<and> length rng_keys = cpu_cores
   \<and> rng_keys = [Subkey (PRNGKey 42) 0, Subkey (PRNGKey 42) 1, Subkey (PRNGKey 42) 2, Subkey (PRNGKey 42) 3]
   \<and> num_chains mcmc = 4
   \<and> length rng_keys = num_chains mcmc \<and> num_chains mcmc = host_device_count"
  by (simp add: cpu_cores_def host_device_count_def rng_keys_def split_def mcmc_def rng_seed_def
      upt_rec numeral_eq_Suc)

section \<open>Failures propagate unchanged\<close>







section \<open>Exchanging the two components\<close>

text \<open>
  For real parameters with \<open>s0 \<noteq> 0\<close> and \<open>s1 \<noteq> 0\<close> and every real array \<open>x\<close>, the
  mixture model is unchanged when the two components \<open>(a0, x0, s0)\<close> and \<open>(a1, x1, s1)\<close>
  are exchanged, and so are \<open>chi2_numpy\<close> and \<open>chi2_jax\<close>, whatever \<open>y\<close> and \<open>yerr\<close> are.
  In \<^verbatim>\<open>demo.ipynb\<close> the priors of \<open>numpyro_model\<close> on the two amplitudes do not
  overlap.
\<close>

lemma component_swap_invariance:
  assumes "s0 \<noteq> 0" and "s1 \<noteq> 0"
  shows "model_numpy (params a0 x0 s0 a1 x1 s1) (real_array xs) =
           model_numpy (params a1 x1 s1 a0 x0 s0) (real_array xs)
       \<and> model_jax (params a0 x0 s0 a1 x1 s1) (real_array xs) =
           model_jax (params a1 x1 s1 a0 x0 s0) (real_array xs)
       \<and> model_numpy (params a0 x0 s0 a1 x1 s1) (real_array xs) =
           Inr (real_array (map (mixture a0 x0 s0 a1 x1 s1) xs))
       \<and> chi2_numpy (params a0 x0 s0 a1 x1 s1) (real_array xs) y yerr =
           chi2_numpy (params a1 x1 s1 a0 x0 s0) (real_array xs) y yerr
       \<and> chi2_jax (params a0 x0 s0 a1 x1 s1) (real_array xs) y yerr =
           chi2_jax (params a1 x1 s1 a0 x0 s0) (real_array xs) y yerr
       \<and> (\<exists>d0 d1. site_dist ''amp0'' = Some d0 \<and> site_dist ''amp1'' = Some d1
            \<and> high d0 \<le> low d1)"
proof -
  have m: "model_numpy (params a0 x0 s0 a1 x1 s1) (real_array xs) =
           model_numpy (params a1 x1 s1 a0 x0 s0) (real_array xs)"
    using assms by (simp add: model_numpy_real mixture_swap [of a0 x0 s0 a1 x1 s1])
  have j: "model_jax (params a0 x0 s0 a1 x1 s1) (real_array xs) =
           model_jax (params a1 x1 s1 a0 x0 s0) (real_array xs)"
    using assms by (simp add: model_jax_real mixture_swap [of a0 x0 s0 a1 x1 s1])
  show ?thesis
    using assms by (simp add: model_numpy_real m [symmetric] j [symmetric] chi2_numpy_def chi2_jax_def site_dist_simps)
qed

lemma component_swap_invariance_at:
  "(1::real) \<noteq> 0 \<and> (2::real) \<noteq> 0
   \<and> model_numpy (params 3 0 1 4 0 2) (real_array [0]) = model_numpy (params 4 0 2 3 0 1) (real_array [0])
   \<and> model_numpy (params 3 0 1 4 0 2) (real_array [0]) = Inr (real_array [7])
   \<and> chi2_numpy (params 3 0 1 4 0 2) (real_array [0]) (real_array [5]) (Scalar (Some 2)) =
       chi2_numpy (params 4 0 2 3 0 1) (real_array [0]) (real_array [5]) (Scalar (Some 2))
   \<and> chi2_jax (params 3 0 1 4 0 2) (real_array [0]) (real_array [5]) (Scalar (Some 2)) =
       chi2_jax (params 4 0 2 3 0 1) (real_array [0]) (real_array [5]) (Scalar (Some 2))"
  using component_swap_invariance [of 1 2 3 0 4 0 "[0]" "real_array [5]" "Scalar (Some 2)"]
  by (auto simp add: mixture_def)

text \<open>
  So is the normalised model of the revised copy.
\<close>

lemma model_numpy_rev_swap:
  assumes "s0 \<noteq> 0" and "s1 \<noteq> 0"
  shows "model_numpy_rev (params a0 x0 s0 a1 x1 s1) (real_array xs) =
         model_numpy_rev (params a1 x1 s1 a0 x0 s0) (real_array xs)"
    and "model_numpy_rev (params a0 x0 s0 a1 x1 s1) (real_array xs) =
           Inr (real_array (map (\<lambda>t. a0 / s0 / (2 * pi) powr 0.5 * exp (- 0.5 * (t - x0)\<^sup>2 / s0\<^sup>2)
                                   + a1 / s1 / (2 * pi) powr 0.5 * exp (- 0.5 * (t - x1)\<^sup>2 / s1\<^sup>2)) xs))"
  using assms
  by (simp_all add: model_numpy_rev_def params_def real_array_def arr_arr_def broadcast_def
      scalar_arr_def arr_scalar_def np_exp_def arr_sq_def num_sq_def num_div_def
      num_mul_def num_sub_def num_add_def num_lift2_def zip_map_map
      zip_same_conv_map comp_def add.commute)

text \<open>
  C9. The specification takes the exchange symmetry to be broken by the
  non-overlapping amplitude priors of \<open>numpyro_model\<close>, as the docstring of the
  revised \<open>numpyro_model\<close> says: ``we put non-overlapping bounded priors on the two
  amplitudes, but vary the means and stddev's with identical uniform priors''. The
  revised code does the opposite. Under a sampler that admits what the priors admit,
  the draw of two equal amplitudes \<open>3\<close> runs through: both come from the one site
  \<open>amp\<close> with prior \<open>Uniform(1, 6)\<close>, and the priors that do not overlap are those of
  the centres \<open>x1\<close> and \<open>x0\<close>. In \<^verbatim>\<open>demo.ipynb\<close> the same draw is refused, and the
  amplitude priors \<open>Uniform(0, 8)\<close> and \<open>Uniform(8, 30)\<close> do not overlap.
\<close>

theorem revised_amplitude_priors_coincide:
  "numpyro_model_rev
     (checking_env numpyro_model_sites_rev
        (\<lambda>name. if name = ''amp'' then [Some 3, Some 3]
                else if name = ''x0'' then [Some 0.5]
                else if name = ''x1'' then [Some (- 0.2)]
                else if name = ''sigma'' then [Some 0.7, Some 0.3] else []))
     (real_array [0]) (real_array [0]) = Inr ()
   \<and> map_of numpyro_model_sites_rev ''amp'' = Some (\<lparr>low = 1, high = 6\<rparr>, 2)
   \<and> strictly_inside \<lparr>low = 1, high = 6\<rparr> 3
   \<and> map_of numpyro_model_sites_rev ''x0'' = Some (\<lparr>low = 0.1, high = 2\<rparr>, 1)
   \<and> map_of numpyro_model_sites_rev ''x1'' = Some (\<lparr>low = - 1, high = 0.1\<rparr>, 1)
   \<and> high \<lparr>low = - 1, high = 0.1\<rparr> \<le> low \<lparr>low = 0.1, high = (2::real)\<rparr>
   \<and> numpyro_model
       (checking_env numpyro_model_sites
          (\<lambda>name. if name = ''amp0'' then [Some 3]
                  else if name = ''amp1'' then [Some 3]
                  else if name = ''center'' then [Some 0.5, Some (- 0.2)]
                  else if name = ''sigma'' then [Some 0.7, Some 0.3] else []))
       (real_array [0]) (real_array [0]) = Inl LibraryError
   \<and> site_dist ''amp0'' = Some \<lparr>low = 0, high = 8\<rparr>
   \<and> site_dist ''amp1'' = Some \<lparr>low = 8, high = 30\<rparr>
   \<and> high \<lparr>low = 0, high = 8\<rparr> \<le> low \<lparr>low = 8, high = (30::real)\<rparr>"
  by (simp add: numpyro_model_rev_def numpyro_model_def checking_env_def
      numpyro_model_sites_rev_def numpyro_model_sites_def site_dist_def possible_draw_def
      strictly_inside_def model_jax_rev_def real_array_def arr_arr_def broadcast_def
      scalar_arr_def arr_scalar_def jnp_exp_def arr_sq_def)

section \<open>The true parameters lie inside the priors\<close>

text \<open>
  Under the sampler that admits what the table of sites and the priors admit, the
  true parameters run through \<open>numpyro_model\<close>: the sites its body declares are those
  of the table, and each true value is a possible draw.
\<close>

lemma numpyro_model_admits_truth:
  "numpyro_model
     (checking_env numpyro_model_sites
        (\<lambda>name. if name = ''amp0'' then [Some amp0]
                else if name = ''amp1'' then [Some amp1]
                else if name = ''center'' then [Some x0_true, Some x1_true]
                else if name = ''sigma'' then [Some s0_true, Some s1_true] else []))
     x y = Inr ()"
  using model_jax_six [of "Some amp0" "Some x0_true" "Some s0_true" "Some amp1" "Some x1_true" "Some s1_true" x]
  by (auto simp add: numpyro_model_def checking_env_def numpyro_model_sites_def
      possible_draw_def strictly_inside_def amp0_def amp1_def x0_true_def x1_true_def
      s0_true_def s1_true_def)

text \<open>
  C10. Every true parameter lies strictly inside the support of its uniform prior in
  \<open>numpyro_model\<close>: \<open>amp0 = 5\<close> in \<open>(0, 8)\<close>, \<open>amp1 = 10\<close> in \<open>(8, 30)\<close>, \<open>x0 = 0.5\<close> and
  \<open>x1 = -0.2\<close> in \<open>(-1, 1)\<close>, \<open>s0 = 1\<close> and \<open>s1 = 0.3\<close> in \<open>(0, 3)\<close>; so the prior density
  at the true parameter vector is positive.
\<close>

theorem truth_inside_priors:
  "amp0 = 5 \<and> site_dist ''amp0'' = Some \<lparr>low = 0, high = 8\<rparr>
     \<and> strictly_inside \<lparr>low = 0, high = 8\<rparr> amp0
   \<and> amp1 = 10 \<and> site_dist ''amp1'' = Some \<lparr>low = 8, high = 30\<rparr>
     \<and> strictly_inside \<lparr>low = 8, high = 30\<rparr> amp1
   \<and> x0_true = 0.5 \<and> x1_true = - 0.2 \<and> site_dist ''center'' = Some \<lparr>low = - 1, high = 1\<rparr>
     \<and> strictly_inside \<lparr>low = - 1, high = 1\<rparr> x0_true
     \<and> strictly_inside \<lparr>low = - 1, high = 1\<rparr> x1_true
   \<and> s0_true = 1 \<and> s1_true = 0.3 \<and> site_dist ''sigma'' = Some \<lparr>low = 0, high = 3\<rparr>
     \<and> strictly_inside \<lparr>low = 0, high = 3\<rparr> s0_true
     \<and> strictly_inside \<lparr>low = 0, high = 3\<rparr> s1_true
   \<and> 0 < prior_density amp0 x0_true s0_true amp1 x1_true s1_true"
  by (simp add: site_dist_simps strictly_inside_def amp0_def amp1_def x0_true_def x1_true_def
      s0_true_def s1_true_def prior_density_def site_pdf_def uniform_pdf_def)

end
